theory Spec2Isabelle
  imports Complex_Main "HOL-Library.Product_Lexorder" "HOL-Library.Multiset"
begin

section \<open>Data model (polymarket\_app/data/models.py)\<close>

text \<open>
  Python floats are modelled as real numbers: prices, sizes and thresholds are
  exact, so no rounding, infinity or NaN occurs in the model. Python's
  \<^verbatim>\<open>Optional[T]\<close> is \<open>T option\<close>, a raised exception is the left
  summand of a sum type.
\<close>

datatype error = IndexError | ValueError | ShapeError | NonFinite

text \<open>\<^verbatim>\<open>xs[i]\<close> for a non-negative literal index: IndexError out of range.\<close>

definition py_index :: "'a list \<Rightarrow> nat \<Rightarrow> error + 'a" where
  "py_index xs i = (if i < length xs then Inr (xs ! i) else Inl IndexError)"

subsection \<open>ConditionPrices\<close>

record condition_prices =
  token_id_yes :: string
  token_id_no :: string
  price_yes :: real
  price_no :: real
  outcome_yes :: string
  outcome_no :: string

definition sum_prices :: "condition_prices \<Rightarrow> real" where
  "sum_prices c = price_yes c + price_no c"

definition arbitrage_up :: "condition_prices \<Rightarrow> bool" where
  "arbitrage_up c = (sum_prices c > 1)"

definition arbitrage_down :: "condition_prices \<Rightarrow> bool" where
  "arbitrage_down c = (sum_prices c < 1)"

definition profit_margin :: "condition_prices \<Rightarrow> real" where
  "profit_margin c =
     (if arbitrage_up c then sum_prices c - 1
      else if arbitrage_down c then 1 - sum_prices c
      else 0)"

subsection \<open>OrderBook\<close>

text \<open>Levels are (price, size) pairs, in the order the caller supplied them.\<close>

record order_book =
  asset_id :: string
  bids :: "(real \<times> real) list"
  asks :: "(real \<times> real) list"

text \<open>
  \<^verbatim>\<open>max(gen, default=None)\<close> and \<^verbatim>\<open>min(gen, default=None)\<close>:
  absent on an empty sequence, otherwise a left-to-right scan.
\<close>

fun py_max :: "real list \<Rightarrow> real option" where
  "py_max [] = None"
| "py_max (x # xs) = Some (fold max xs x)"

fun py_min :: "real list \<Rightarrow> real option" where
  "py_min [] = None"
| "py_min (x # xs) = Some (fold min xs x)"

definition best_bid :: "order_book \<Rightarrow> real option" where
  "best_bid ob = py_max (map fst (bids ob))"

definition best_ask :: "order_book \<Rightarrow> real option" where
  "best_ask ob = py_min (map fst (asks ob))"




subsection \<open>Market\<close>

text \<open>
  The fields of \<^verbatim>\<open>Market\<close> carry the prefix \<open>m_\<close>, because several of
  them share their names with fields of the opportunity record below.
\<close>

record market =
  m_id :: string
  m_question :: string
  m_slug :: string
  m_event_slug :: string
  m_condition_id :: string
  m_outcomes :: "string list"
  m_outcome_prices :: "real list"
  m_clob_token_ids :: "string list"
  m_order_book_yes :: "order_book option"
  m_order_book_no :: "order_book option"
  m_end_date :: string

definition gamma_prices :: "market \<Rightarrow> condition_prices option" where
  "gamma_prices m =
     (if length (m_outcomes m) < 2 \<or> length (m_outcome_prices m) < 2
         \<or> length (m_clob_token_ids m) < 2
      then None
      else Some \<lparr>token_id_yes = m_clob_token_ids m ! 0,
                 token_id_no = m_clob_token_ids m ! 1,
                 price_yes = m_outcome_prices m ! 0,
                 price_no = m_outcome_prices m ! 1,
                 outcome_yes = m_outcomes m ! 0,
                 outcome_no = m_outcomes m ! 1\<rparr>)"

definition get_prices :: "market \<Rightarrow> condition_prices option" where
  "get_prices m = gamma_prices m"

text \<open>
  \<^verbatim>\<open>get_order_book_prices\<close> returns the dictionary
  \<^verbatim>\<open>{"buy": ..., "sell": ...}\<close> or \<^verbatim>\<open>None\<close>; the dictionary always
  has exactly these two keys, so it is the pair (buy, sell) here. The token
  ids are read with \<^verbatim>\<open>self.clob_token_ids[0]\<close> and \<^verbatim>\<open>[1]\<close> without a
  length check, so the function raises IndexError on a shorter list.
\<close>

definition get_order_book_prices ::
  "market \<Rightarrow> error + (condition_prices \<times> condition_prices) option" where
  "get_order_book_prices m =
     (case (m_order_book_yes m, m_order_book_no m) of
        (Some oby, Some obn) \<Rightarrow>
          (case (best_ask oby, best_ask obn, best_bid oby, best_bid obn) of
             (Some best_ask_yes, Some best_ask_no, Some best_bid_yes, Some best_bid_no) \<Rightarrow>
               (case py_index (m_clob_token_ids m) 0 of
                  Inl e \<Rightarrow> Inl e
                | Inr t0 \<Rightarrow>
                  (case py_index (m_clob_token_ids m) 1 of
                     Inl e \<Rightarrow> Inl e
                   | Inr t1 \<Rightarrow>
                     (let oy = (if m_outcomes m \<noteq> [] then m_outcomes m ! 0 else ''Yes'');
                          on = (if length (m_outcomes m) > 1 then m_outcomes m ! 1 else ''No'')
                      in Inr (Some
                          (\<lparr>token_id_yes = t0, token_id_no = t1,
                            price_yes = best_ask_yes, price_no = best_ask_no,
                            outcome_yes = oy, outcome_no = on\<rparr>,
                           \<lparr>token_id_yes = t0, token_id_no = t1,
                            price_yes = best_bid_yes, price_no = best_bid_no,
                            outcome_yes = oy, outcome_no = on\<rparr>)))))
           | _ \<Rightarrow> Inr None)
      | _ \<Rightarrow> Inr None)"

section \<open>Single-condition detection (polymarket\_app/arbitrage/single\_condition.py)\<close>

definition MIN_PROFIT_THRESHOLD :: real where
  "MIN_PROFIT_THRESHOLD = 3 / 100"

text \<open>
  The fields of \<^verbatim>\<open>ArbitrageOpportunity\<close> carry the prefix \<open>opp_\<close>; the
  direction stays a string, as in the source.
\<close>

record arbitrage_opportunity =
  opp_market_id :: string
  opp_question :: string
  opp_slug :: string
  opp_event_slug :: string
  opp_direction :: string
  opp_price_yes :: real
  opp_price_no :: real
  opp_sum_prices :: real
  opp_profit_margin :: real
  opp_token_id_yes :: string
  opp_token_id_no :: string
  opp_order_book_yes :: "order_book option"
  opp_order_book_no :: "order_book option"
  opp_end_date :: string

text \<open>
  An \<^verbatim>\<open>OrderBook\<close> instance is always truthy (a dataclass without
  \<^verbatim>\<open>__bool__\<close> or \<^verbatim>\<open>__len__\<close>), so \<^verbatim>\<open>not self.order_book_yes\<close>
  holds exactly for \<^verbatim>\<open>None\<close>.
\<close>

definition max_extractable_usd :: "arbitrage_opportunity \<Rightarrow> real option \<Rightarrow> real option" where
  "max_extractable_usd opp max_size =
     (case (opp_order_book_yes opp, opp_order_book_no opp) of
        (Some oby, Some obn) \<Rightarrow>
          (let yes_depth = (if opp_direction opp = ''sell_both''
                            then sum_list (map snd (bids oby))
                            else sum_list (map snd (asks oby)));
               no_depth = (if opp_direction opp = ''sell_both''
                           then sum_list (map snd (bids obn))
                           else sum_list (map snd (asks obn)));
               cap = min yes_depth no_depth;
               cap' = (case max_size of None \<Rightarrow> cap | Some ms \<Rightarrow> min cap ms)
           in Some (opp_profit_margin opp * cap'))
      | _ \<Rightarrow> None)"

text \<open>
  The first block of \<^verbatim>\<open>detect_single_condition_arbitrage\<close>: the choice of
  \<^verbatim>\<open>buy_prices\<close> and \<^verbatim>\<open>sell_prices\<close>. The dictionary
  \<^verbatim>\<open>clob_prices\<close> is an association list with distinct keys; it is falsy
  when it is \<^verbatim>\<open>None\<close> or empty, and \<^verbatim>\<open>.get\<close> is the lookup.
\<close>

definition price_sources ::
  "market \<Rightarrow> bool \<Rightarrow> (string \<times> condition_prices) list option
     \<Rightarrow> error + (condition_prices option \<times> condition_prices option)" where
  "price_sources market use_order_book clob_prices =
     (case clob_prices of
        Some (kv # kvs) \<Rightarrow> Inr (map_of (kv # kvs) ''buy'', map_of (kv # kvs) ''sell'')
      | _ \<Rightarrow>
          if use_order_book then
            (case get_order_book_prices market of
               Inl e \<Rightarrow> Inl e
             | Inr (Some (ob_buy, ob_sell)) \<Rightarrow> Inr (Some ob_buy, Some ob_sell)
             | Inr None \<Rightarrow> Inr (get_prices market, get_prices market))
          else Inr (get_prices market, get_prices market))"

definition detect_single_condition_arbitrage ::
  "market \<Rightarrow> real \<Rightarrow> bool \<Rightarrow> (string \<times> condition_prices) list option
     \<Rightarrow> error + arbitrage_opportunity list" where
  "detect_single_condition_arbitrage market min_profit use_order_book clob_prices =
     (case price_sources market use_order_book clob_prices of
        Inl e \<Rightarrow> Inl e
      | Inr (Some buy_prices, Some sell_prices) \<Rightarrow>
          Inr ((if arbitrage_down buy_prices \<and> profit_margin buy_prices \<ge> min_profit
                then [\<lparr>opp_market_id = m_id market,
                       opp_question = m_question market,
                       opp_slug = m_slug market,
                       opp_event_slug = m_event_slug market,
                       opp_direction = ''buy_both'',
                       opp_price_yes = price_yes buy_prices,
                       opp_price_no = price_no buy_prices,
                       opp_sum_prices = sum_prices buy_prices,
                       opp_profit_margin = profit_margin buy_prices,
                       opp_token_id_yes = token_id_yes buy_prices,
                       opp_token_id_no = token_id_no buy_prices,
                       opp_order_book_yes = m_order_book_yes market,
                       opp_order_book_no = m_order_book_no market,
                       opp_end_date = m_end_date market\<rparr>]
                else [])
               @
               (if arbitrage_up sell_prices \<and> profit_margin sell_prices \<ge> min_profit
                then [\<lparr>opp_market_id = m_id market,
                       opp_question = m_question market,
                       opp_slug = m_slug market,
                       opp_event_slug = m_event_slug market,
                       opp_direction = ''sell_both'',
                       opp_price_yes = price_yes sell_prices,
                       opp_price_no = price_no sell_prices,
                       opp_sum_prices = sum_prices sell_prices,
                       opp_profit_margin = profit_margin sell_prices,
                       opp_token_id_yes = token_id_yes sell_prices,
                       opp_token_id_no = token_id_no sell_prices,
                       opp_order_book_yes = m_order_book_yes market,
                       opp_order_book_no = m_order_book_no market,
                       opp_end_date = m_end_date market\<rparr>]
                else []))
      | Inr _ \<Rightarrow> Inr [])"

section \<open>Bregman projection primitives (polymarket\_app/arbitrage/bregman.py)\<close>

text \<open>
  One-dimensional arrays are lists. \<^verbatim>\<open>np.clip(a, lo, hi)\<close> is
  \<^verbatim>\<open>minimum(maximum(a, lo), hi)\<close>, element by element.
\<close>

definition clip :: "real \<Rightarrow> real \<Rightarrow> real \<Rightarrow> real" where
  "clip x lo hi = min (max x lo) hi"

definition np_clip :: "real list \<Rightarrow> real \<Rightarrow> real \<Rightarrow> real list" where
  "np_clip a lo hi = map (\<lambda>x. clip x lo hi) a"

text \<open>
  \<^verbatim>\<open>np.log\<close> of a number that is not positive gives \<^verbatim>\<open>-inf\<close> or
  \<^verbatim>\<open>nan\<close> with a warning; the model records that as the value NonFinite.
\<close>

definition np_log :: "real list \<Rightarrow> error + real list" where
  "np_log a = (if list_all (\<lambda>x. 0 < x) a then Inr (map ln a) else Inl NonFinite)"

text \<open>
  Broadcasting of two one-dimensional shapes: equal lengths, or one of them of
  length one; anything else raises (ShapeError).
\<close>

definition broadcast2 :: "(real \<Rightarrow> real \<Rightarrow> real) \<Rightarrow> real list \<Rightarrow> real list \<Rightarrow> error + real list" where
  "broadcast2 f xs ys =
     (if length xs = length ys then Inr (map2 f xs ys)
      else case (xs, ys) of
             ([x], _) \<Rightarrow> Inr (map (f x) ys)
           | (_, [y]) \<Rightarrow> Inr (map (\<lambda>x. f x y) xs)
           | _ \<Rightarrow> Inl ShapeError)"

definition kl_eps_default :: real where
  "kl_eps_default = 1 / 10 ^ 10"

text \<open>
  \<^verbatim>\<open>kl_divergence\<close>: the two clips, the two logarithms, the difference, the
  product and the sum. Shapes that do not broadcast raise whatever the values
  are, while a logarithm of a non-positive number only yields a non-finite
  value, so the model tests the shapes before it takes the logarithms.
\<close>

definition kl_divergence :: "real list \<Rightarrow> real list \<Rightarrow> real \<Rightarrow> error + real" where
  "kl_divergence mu theta eps =
     (let theta_safe = np_clip theta eps (1 - eps);
          mu_safe = np_clip mu eps (1 - eps)
      in case broadcast2 (\<lambda>m t. 0) mu_safe theta_safe of
           Inl e \<Rightarrow> Inl e
         | Inr _ \<Rightarrow>
           (case (np_log mu_safe, np_log theta_safe) of
              (Inr log_mu, Inr log_theta) \<Rightarrow>
                (case broadcast2 (-) log_mu log_theta of
                   Inl e \<Rightarrow> Inl e
                 | Inr d \<Rightarrow>
                   (case broadcast2 (*) mu_safe d of
                      Inl e \<Rightarrow> Inl e
                    | Inr terms \<Rightarrow> Inr (sum_list terms)))
            | _ \<Rightarrow> Inl NonFinite))"

text \<open>
  Of \<^verbatim>\<open>bregman_projection_lmsr\<close> the model keeps what is written in Python:
  the default box, the start point \<^verbatim>\<open>x0\<close> and the closure
  \<^verbatim>\<open>objective\<close>, which calls \<^verbatim>\<open>kl_divergence(mu, theta)\<close> with the
  default \<^verbatim>\<open>eps\<close>; the parameter \<^verbatim>\<open>bounds\<close> of the enclosing function is
  in scope and not used by it. The SLSQP solver is outside the model.
\<close>

definition bounds_default :: "real \<times> real" where
  "bounds_default = (1 / 10 ^ 6, 1 - 1 / 10 ^ 6)"

definition x0 :: "real \<times> real \<Rightarrow> real list \<Rightarrow> real list" where
  "x0 bounds theta = np_clip theta (fst bounds) (snd bounds)"

definition objective :: "real \<times> real \<Rightarrow> real list \<Rightarrow> real list \<Rightarrow> error + real" where
  "objective bounds theta mu = kl_divergence mu theta kl_eps_default"

text \<open>
  \<^verbatim>\<open>np.argmin\<close>: the index of the first occurrence of the minimum;
  ValueError on an empty array.
\<close>

fun argmin_from :: "real list \<Rightarrow> nat \<Rightarrow> nat \<Rightarrow> real \<Rightarrow> nat" where
  "argmin_from [] i best_i best = best_i"
| "argmin_from (x # xs) i best_i best =
     (if x < best then argmin_from xs (Suc i) i x
      else argmin_from xs (Suc i) best_i best)"

fun argmin :: "real list \<Rightarrow> error + nat" where
  "argmin [] = Inl ValueError"
| "argmin (x # xs) = Inr (argmin_from xs 1 0 x)"

definition zeros_like :: "real list \<Rightarrow> real list" where
  "zeros_like a = replicate (length a) 0"

definition frank_wolfe_oracle ::
  "real list \<Rightarrow> real list list \<Rightarrow> real list \<Rightarrow> error + real list" where
  "frank_wolfe_oracle gradient constraint_matrix constraint_rhs =
     (case argmin gradient of
        Inl e \<Rightarrow> Inl e
      | Inr i \<Rightarrow> Inr ((zeros_like gradient)[i := 1]))"

section \<open>Notions of the specification used to state the properties\<close>

text \<open>
  The opportunity record the detector is specified to emit for a direction and
  the price pair that triggered it.
\<close>

definition opportunity_of :: "market \<Rightarrow> string \<Rightarrow> condition_prices \<Rightarrow> arbitrage_opportunity" where
  "opportunity_of m dir p =
     \<lparr>opp_market_id = m_id m, opp_question = m_question m, opp_slug = m_slug m,
      opp_event_slug = m_event_slug m, opp_direction = dir,
      opp_price_yes = price_yes p, opp_price_no = price_no p,
      opp_sum_prices = price_yes p + price_no p,
      opp_profit_margin = \<bar>price_yes p + price_no p - 1\<bar>,
      opp_token_id_yes = token_id_yes p, opp_token_id_no = token_id_no p,
      opp_order_book_yes = m_order_book_yes m, opp_order_book_no = m_order_book_no m,
      opp_end_date = m_end_date m\<rparr>"






text \<open>Linear algebra on lists, the probability simplex, and the first minimum.\<close>

definition dot :: "real list \<Rightarrow> real list \<Rightarrow> real" where
  "dot xs ys = sum_list (map2 (*) xs ys)"

definition mat_vec :: "real list list \<Rightarrow> real list \<Rightarrow> real list" where
  "mat_vec A x = map (\<lambda>row. dot row x) A"

definition in_simplex :: "real list \<Rightarrow> bool" where
  "in_simplex x = (list_all (\<lambda>v. 0 \<le> v) x \<and> sum_list x = 1)"

definition unit_vector :: "nat \<Rightarrow> nat \<Rightarrow> real list" where
  "unit_vector n i = (replicate n 0)[i := 1]"

definition first_min_index :: "real list \<Rightarrow> nat \<Rightarrow> bool" where
  "first_min_index g i =
     (i < length g \<and> (\<forall>j<length g. g ! i \<le> g ! j) \<and> (\<forall>j<i. g ! i < g ! j))"

section \<open>Example inputs\<close>

text \<open>
  The books of the depth scenario (100 at 0.45 on the YES asks, 80 at 0.50 on
  the NO asks), a market with the raw prices 0.45 and 0.50, and variants of it.
\<close>

definition book_yes :: order_book where
  "book_yes = \<lparr>asset_id = ''ty'', bids = [(40/100, 50), (42/100, 30)], asks = [(45/100, 100)]\<rparr>"

definition book_no :: order_book where
  "book_no = \<lparr>asset_id = ''tn'', bids = [(48/100, 60)], asks = [(50/100, 80)]\<rparr>"

definition market_raw :: market where
  "market_raw = \<lparr>m_id = ''1'', m_question = ''Q'', m_slug = ''q'', m_event_slug = ''e'',
     m_condition_id = ''c'', m_outcomes = [''Yes'', ''No''], m_outcome_prices = [45/100, 1/2],
     m_clob_token_ids = [''ty'', ''tn''], m_order_book_yes = None, m_order_book_no = None,
     m_end_date = []\<rparr>"

definition market_books :: market where
  "market_books = market_raw\<lparr>m_order_book_yes := Some book_yes, m_order_book_no := Some book_no\<rparr>"

definition market_one_book :: market where
  "market_one_book = market_raw\<lparr>m_order_book_yes := Some book_yes\<rparr>"

definition market_one_id :: market where
  "market_one_id = market_books\<lparr>m_clob_token_ids := [''ty'']\<rparr>"

definition market_no_prices :: market where
  "market_no_prices = market_raw\<lparr>m_outcome_prices := []\<rparr>"

definition prices_raw :: condition_prices where
  "prices_raw = \<lparr>token_id_yes = ''ty'', token_id_no = ''tn'', price_yes = 45/100,
     price_no = 1/2, outcome_yes = ''Yes'', outcome_no = ''No''\<rparr>"

definition prices_bid :: condition_prices where
  "prices_bid = \<lparr>token_id_yes = ''ty'', token_id_no = ''tn'', price_yes = 42/100,
     price_no = 48/100, outcome_yes = ''Yes'', outcome_no = ''No''\<rparr>"

definition prices_high :: condition_prices where
  "prices_high = \<lparr>token_id_yes = ''ty'', token_id_no = ''tn'', price_yes = 60/100,
     price_no = 55/100, outcome_yes = ''Yes'', outcome_no = ''No''\<rparr>"

definition opp_buy :: arbitrage_opportunity where
  "opp_buy = \<lparr>opp_market_id = ''1'', opp_question = ''Q'', opp_slug = ''q'',
     opp_event_slug = ''e'', opp_direction = ''buy_both'', opp_price_yes = 45/100,
     opp_price_no = 1/2, opp_sum_prices = 95/100, opp_profit_margin = 5/100,
     opp_token_id_yes = ''ty'', opp_token_id_no = ''tn'',
     opp_order_book_yes = Some book_yes, opp_order_book_no = Some book_no,
     opp_end_date = []\<rparr>"


definition gradient_ex :: "real list" where
  "gradient_ex = [1, 2]"

definition constraint_matrix_ex :: "real list list" where
  "constraint_matrix_ex = [[1, 0], [0, 1]]"

definition constraint_rhs_ex :: "real list" where
  "constraint_rhs_ex = [1/2, 1/2]"

section \<open>Properties of ConditionPrices\<close>

text \<open>
  C3. For every ConditionPrices value the sum is price\_yes + price\_no, the
  two arbitrage flags are never both true, the profit margin is never negative,
  it is zero exactly when neither flag is true, and when a flag is true it is
  the absolute value of sum - 1.
\<close>

theorem condition_prices_invariants:
  "sum_prices c = price_yes c + price_no c
   \<and> \<not> (arbitrage_up c \<and> arbitrage_down c)
   \<and> 0 \<le> profit_margin c
   \<and> ((profit_margin c = 0) = (\<not> arbitrage_up c \<and> \<not> arbitrage_down c))
   \<and> (arbitrage_up c \<or> arbitrage_down c \<longrightarrow> profit_margin c = \<bar>sum_prices c - 1\<bar>)"
  by (auto simp: profit_margin_def arbitrage_up_def arbitrage_down_def sum_prices_def)

theorem condition_prices_invariants_witness:
  "sum_prices \<lparr>token_id_yes = ''y'', token_id_no = ''n'', price_yes = 45/100,
      price_no = 1/2, outcome_yes = ''Yes'', outcome_no = ''No''\<rparr> = 95/100
   \<and> arbitrage_down \<lparr>token_id_yes = ''y'', token_id_no = ''n'', price_yes = 45/100,
      price_no = 1/2, outcome_yes = ''Yes'', outcome_no = ''No''\<rparr>
   \<and> profit_margin \<lparr>token_id_yes = ''y'', token_id_no = ''n'', price_yes = 45/100,
      price_no = 1/2, outcome_yes = ''Yes'', outcome_no = ''No''\<rparr>
       = \<bar>sum_prices \<lparr>token_id_yes = ''y'', token_id_no = ''n'', price_yes = 45/100,
      price_no = 1/2, outcome_yes = ''Yes'', outcome_no = ''No''\<rparr> - 1\<bar>"
proof -
  let ?c = "\<lparr>token_id_yes = ''y'', token_id_no = ''n'', price_yes = 45/100,
      price_no = 1/2, outcome_yes = ''Yes'', outcome_no = ''No''\<rparr>"
  have d: "arbitrage_down ?c"
    by (simp add: arbitrage_down_def sum_prices_def)
  have s: "sum_prices ?c = 95/100"
    by (simp add: sum_prices_def)
  from condition_prices_invariants [of ?c] d
  have "profit_margin ?c = \<bar>sum_prices ?c - 1\<bar>" by blast
  with d s show ?thesis by simp
qed

section \<open>Auxiliary facts\<close>

lemma py_min_eq: "py_min xs = (if xs = [] then None else Some (Min (set xs)))"
proof (cases xs)
  case Nil
  then show ?thesis by simp
next
  case (Cons a list)
  then show ?thesis using Min.set_eq_fold [of a list] by simp
qed

lemma py_max_eq: "py_max xs = (if xs = [] then None else Some (Max (set xs)))"
proof (cases xs)
  case Nil
  then show ?thesis by simp
next
  case (Cons a list)
  then show ?thesis using Max.set_eq_fold [of a list] by simp
qed

lemma best_ask_eq:
  "best_ask ob = (if asks ob = [] then None else Some (Min (fst ` set (asks ob))))"
  by (simp add: best_ask_def py_min_eq)

lemma best_bid_eq:
  "best_bid ob = (if bids ob = [] then None else Some (Max (fst ` set (bids ob))))"
  by (simp add: best_bid_def py_max_eq)

lemma margin_abs: "profit_margin p = \<bar>price_yes p + price_no p - 1\<bar>"
  by (simp add: profit_margin_def arbitrage_up_def arbitrage_down_def sum_prices_def)

lemma detect_of_sources:
  assumes "price_sources m u c = Inr (Some b, Some s)"
  shows "detect_single_condition_arbitrage m t u c =
     Inr ((if arbitrage_down b \<and> t \<le> profit_margin b
           then [opportunity_of m ''buy_both'' b] else [])
          @ (if arbitrage_up s \<and> t \<le> profit_margin s
             then [opportunity_of m ''sell_both'' s] else []))"
  using assms
  by (simp add: detect_single_condition_arbitrage_def opportunity_of_def margin_abs sum_prices_def)

lemma detect_cases:
  "detect_single_condition_arbitrage m t u c =
     (case price_sources m u c of
        Inl e \<Rightarrow> Inl e
      | Inr (Some b, Some s) \<Rightarrow>
          Inr ((if arbitrage_down b \<and> t \<le> profit_margin b
                then [opportunity_of m ''buy_both'' b] else [])
               @ (if arbitrage_up s \<and> t \<le> profit_margin s
                  then [opportunity_of m ''sell_both'' s] else []))
      | Inr _ \<Rightarrow> Inr [])"
  by (auto simp: detect_single_condition_arbitrage_def opportunity_of_def margin_abs sum_prices_def
      split: sum.splits option.splits prod.splits)

lemma detect_length: "detect_single_condition_arbitrage m t u c = Inr opps \<Longrightarrow> length opps \<le> 2"
  by (auto simp: detect_cases split: sum.splits option.splits prod.splits if_splits)

lemma detect_missing:
  "price_sources m u c = Inr (bo, so) \<Longrightarrow> bo = None \<or> so = None \<Longrightarrow>
   detect_single_condition_arbitrage m t u c = Inr []"
  by (auto simp: detect_cases split: option.splits)

lemma order_book_prices_total:
  "2 \<le> length (m_clob_token_ids m) \<Longrightarrow> \<exists>r. get_order_book_prices m = Inr r"
  by (auto simp: get_order_book_prices_def py_index_def Let_def
      split: option.splits prod.splits)

lemma sources_total:
  "2 \<le> length (m_clob_token_ids m) \<Longrightarrow> \<exists>ps. price_sources m u c = Inr ps"
  using order_book_prices_total [of m]
  by (auto simp: price_sources_def split: option.splits list.splits sum.splits)

lemma detect_total:
  "price_sources m u c = Inr ps \<Longrightarrow>
   \<exists>opps. detect_single_condition_arbitrage m t u c = Inr opps \<and> length opps \<le> 2"
  by (auto simp: detect_cases split: option.splits prod.splits)

lemma get_prices_raw: "get_prices market_raw = Some prices_raw"
  by (simp add: get_prices_def gamma_prices_def market_raw_def prices_raw_def)

lemma sources_raw: "price_sources market_raw True None = Inr (Some prices_raw, Some prices_raw)"
  by (simp add: price_sources_def get_order_book_prices_def get_prices_def gamma_prices_def
      market_raw_def prices_raw_def)

lemma prices_raw_facts:
  "arbitrage_down prices_raw" "\<not> arbitrage_up prices_raw" "profit_margin prices_raw = 1/20"
  by (simp_all add: arbitrage_down_def arbitrage_up_def margin_abs sum_prices_def prices_raw_def)

lemma detect_raw_low: "detect_single_condition_arbitrage market_raw (3/100) True None
     = Inr [opportunity_of market_raw ''buy_both'' prices_raw]"
  by (simp add: detect_of_sources [OF sources_raw] prices_raw_facts)

lemma detect_raw_high: "detect_single_condition_arbitrage market_raw (1/10) True None = Inr []"
  by (simp add: detect_of_sources [OF sources_raw] prices_raw_facts)

section \<open>Properties of the detector\<close>

text \<open>
  C1. For every detector call in which the price selection yields both a
  buy-side and a sell-side ConditionPrices, the detector returns the buy\_both
  opportunity of the buy-side prices exactly when they have arbitrage\_down and
  a margin of at least min\_profit, followed by the sell\_both opportunity of
  the sell-side prices exactly when they have arbitrage\_up and a margin of at
  least min\_profit. When the selection leaves the buy side or the sell side
  absent, the detector returns the empty list, whatever the other side holds.
  Whenever the price selection returns, and so for every market with at least
  two token ids, the detector returns a list of at most two opportunities. For
  the prices 0.45 and 0.50 on both sides and the threshold 0.03 the result is
  exactly one buy\_both opportunity, with sum 0.95 and margin 1 - 0.95.
\<close>

theorem detector_emits:
  "(price_sources m u c = Inr (Some b, Some s) \<longrightarrow>
      detect_single_condition_arbitrage m t u c =
        Inr ((if arbitrage_down b \<and> t \<le> profit_margin b
              then [opportunity_of m ''buy_both'' b] else [])
             @ (if arbitrage_up s \<and> t \<le> profit_margin s
                then [opportunity_of m ''sell_both'' s] else [])))
   \<and> (price_sources m u c = Inr (bo, so) \<and> (bo = None \<or> so = None) \<longrightarrow>
        detect_single_condition_arbitrage m t u c = Inr [])
   \<and> (price_sources m u c = Inr ps \<longrightarrow>
        (\<exists>opps. detect_single_condition_arbitrage m t u c = Inr opps \<and> length opps \<le> 2))
   \<and> (2 \<le> length (m_clob_token_ids m) \<longrightarrow>
        (\<exists>opps. detect_single_condition_arbitrage m t u c = Inr opps \<and> length opps \<le> 2))
   \<and> (price_sources m u c = Inr (Some b, Some s)
        \<and> price_yes b = 45/100 \<and> price_no b = 1/2
        \<and> price_yes s = 45/100 \<and> price_no s = 1/2 \<longrightarrow>
      detect_single_condition_arbitrage m (3/100) u c = Inr [opportunity_of m ''buy_both'' b]
      \<and> opp_direction (opportunity_of m ''buy_both'' b) = ''buy_both''
      \<and> opp_sum_prices (opportunity_of m ''buy_both'' b) = 95/100
      \<and> opp_profit_margin (opportunity_of m ''buy_both'' b) = 1 - 95/100)"
proof (intro conjI impI)
  assume "price_sources m u c = Inr (Some b, Some s)"
  then show "detect_single_condition_arbitrage m t u c =
        Inr ((if arbitrage_down b \<and> t \<le> profit_margin b
              then [opportunity_of m ''buy_both'' b] else [])
             @ (if arbitrage_up s \<and> t \<le> profit_margin s
                then [opportunity_of m ''sell_both'' s] else []))"
    by (rule detect_of_sources)
next
  assume "price_sources m u c = Inr (bo, so) \<and> (bo = None \<or> so = None)"
  then show "detect_single_condition_arbitrage m t u c = Inr []"
    using detect_missing by blast
next
  assume "price_sources m u c = Inr ps"
  then show "\<exists>opps. detect_single_condition_arbitrage m t u c = Inr opps \<and> length opps \<le> 2"
    by (rule detect_total)
next
  assume "2 \<le> length (m_clob_token_ids m)"
  then obtain ps where "price_sources m u c = Inr ps"
    using sources_total by blast
  then show "\<exists>opps. detect_single_condition_arbitrage m t u c = Inr opps \<and> length opps \<le> 2"
    by (rule detect_total)
next
  assume a: "price_sources m u c = Inr (Some b, Some s)
        \<and> price_yes b = 45/100 \<and> price_no b = 1/2
        \<and> price_yes s = 45/100 \<and> price_no s = 1/2"
  then have "arbitrage_down b" "profit_margin b = 5/100" "\<not> arbitrage_up s"
    by (simp_all add: arbitrage_down_def arbitrage_up_def margin_abs sum_prices_def)
  with a show "detect_single_condition_arbitrage m (3/100) u c = Inr [opportunity_of m ''buy_both'' b]"
    by (simp add: detect_of_sources)
next
  show "opp_direction (opportunity_of m ''buy_both'' b) = ''buy_both''"
    by (simp add: opportunity_of_def)
next
  assume "price_sources m u c = Inr (Some b, Some s)
        \<and> price_yes b = 45/100 \<and> price_no b = 1/2
        \<and> price_yes s = 45/100 \<and> price_no s = 1/2"
  then show "opp_sum_prices (opportunity_of m ''buy_both'' b) = 95/100"
    by (simp add: opportunity_of_def)
next
  assume "price_sources m u c = Inr (Some b, Some s)
        \<and> price_yes b = 45/100 \<and> price_no b = 1/2
        \<and> price_yes s = 45/100 \<and> price_no s = 1/2"
  then show "opp_profit_margin (opportunity_of m ''buy_both'' b) = 1 - 95/100"
    by (simp add: opportunity_of_def)
qed

theorem detector_emits_witness:
  "detect_single_condition_arbitrage market_raw (3/100) True None
     = Inr [opportunity_of market_raw ''buy_both'' prices_raw]
   \<and> opp_direction (opportunity_of market_raw ''buy_both'' prices_raw) = ''buy_both''
   \<and> opp_sum_prices (opportunity_of market_raw ''buy_both'' prices_raw) = 95/100
   \<and> opp_profit_margin (opportunity_of market_raw ''buy_both'' prices_raw) = 1 - 95/100"
proof -
  have p: "price_sources market_raw True None = Inr (Some prices_raw, Some prices_raw)
        \<and> price_yes prices_raw = 45/100 \<and> price_no prices_raw = 1/2
        \<and> price_yes prices_raw = 45/100 \<and> price_no prices_raw = 1/2"
    by (simp add: sources_raw) (simp add: prices_raw_def)
  from detector_emits [of market_raw True None prices_raw prices_raw "3/100"
      _ _ "(Some prices_raw, Some prices_raw)"] p
  show ?thesis by blast
qed

text \<open>
  A call in which only one side is selected: a mapping that holds only the
  entry "buy" selects buy-side prices with arbitrage\_down and a margin above
  the threshold 0.03, and the detector emits no buy\_both opportunity.
\<close>

theorem buy_side_alone_emits_nothing:
  "price_sources market_raw True (Some [(''buy'', prices_raw)]) = Inr (Some prices_raw, None)
   \<and> arbitrage_down prices_raw
   \<and> 3/100 \<le> profit_margin prices_raw
   \<and> detect_single_condition_arbitrage market_raw (3/100) True (Some [(''buy'', prices_raw)])
       = Inr []"
  by (simp add: prices_raw_facts)
     (simp add: detect_single_condition_arbitrage_def price_sources_def)

text \<open>
  C8. For a fixed market, order-book flag and explicit prices, and thresholds
  t1 \<le> t2, the detector either returns at both thresholds, with no more
  opportunities at t2 than at t1, or raises the same error at both.
\<close>

theorem threshold_monotone:
  "t1 \<le> t2 \<Longrightarrow>
   (case (detect_single_condition_arbitrage m t1 u c,
          detect_single_condition_arbitrage m t2 u c) of
      (Inr o1, Inr o2) \<Rightarrow> length o2 \<le> length o1
    | (Inl e1, Inl e2) \<Rightarrow> e1 = e2
    | _ \<Rightarrow> False)"
  by (auto simp: detect_cases split: sum.splits option.splits prod.splits)

theorem threshold_monotone_witness:
  "((3/100 :: real) \<le> 1/10)
   \<and> detect_single_condition_arbitrage market_raw (3/100) True None
     = Inr [opportunity_of market_raw ''buy_both'' prices_raw]
   \<and> detect_single_condition_arbitrage market_raw (1/10) True None = Inr []
   \<and> length ([] :: arbitrage_opportunity list)
       \<le> length [opportunity_of market_raw ''buy_both'' prices_raw]"
proof -
  have h: "(3/100 :: real) \<le> 1/10" by simp
  from threshold_monotone [OF h, of market_raw True None]
  show ?thesis by (simp add: detect_raw_low detect_raw_high)
qed

lemma sources_mapping:
  "d \<noteq> [] \<Longrightarrow> price_sources m u (Some d) = Inr (map_of d ''buy'', map_of d ''sell'')"
  by (cases d) (simp_all add: price_sources_def)

lemma sources_no_mapping:
  "c = None \<or> c = Some [] \<Longrightarrow>
   price_sources m u c =
     (if u then (case get_order_book_prices m of
                   Inl e \<Rightarrow> Inl e
                 | Inr (Some (ob_buy, ob_sell)) \<Rightarrow> Inr (Some ob_buy, Some ob_sell)
                 | Inr None \<Rightarrow> Inr (get_prices m, get_prices m))
      else Inr (get_prices m, get_prices m))"
  by (auto simp: price_sources_def)

lemma order_book_prices_liquid:
  assumes "m_order_book_yes m = Some oby" "m_order_book_no m = Some obn"
    and "asks oby \<noteq> []" "asks obn \<noteq> []" "bids oby \<noteq> []" "bids obn \<noteq> []"
    and "2 \<le> length (m_clob_token_ids m)"
  shows "get_order_book_prices m = Inr (Some
      (\<lparr>token_id_yes = m_clob_token_ids m ! 0, token_id_no = m_clob_token_ids m ! 1,
        price_yes = Min (fst ` set (asks oby)), price_no = Min (fst ` set (asks obn)),
        outcome_yes = (if m_outcomes m \<noteq> [] then m_outcomes m ! 0 else ''Yes''),
        outcome_no = (if length (m_outcomes m) > 1 then m_outcomes m ! 1 else ''No'')\<rparr>,
       \<lparr>token_id_yes = m_clob_token_ids m ! 0, token_id_no = m_clob_token_ids m ! 1,
        price_yes = Max (fst ` set (bids oby)), price_no = Max (fst ` set (bids obn)),
        outcome_yes = (if m_outcomes m \<noteq> [] then m_outcomes m ! 0 else ''Yes''),
        outcome_no = (if length (m_outcomes m) > 1 then m_outcomes m ! 1 else ''No'')\<rparr>))"
proof -
  from assms(7) have "m_clob_token_ids m \<noteq> []" "1 < length (m_clob_token_ids m)"
    by auto
  with assms show ?thesis
    by (simp add: get_order_book_prices_def best_ask_eq best_bid_eq py_index_def Let_def)
qed

lemma order_book_prices_missing:
  assumes "m_order_book_yes m = None \<or> m_order_book_no m = None
     \<or> (\<exists>ob. m_order_book_yes m = Some ob \<and> (asks ob = [] \<or> bids ob = []))
     \<or> (\<exists>ob. m_order_book_no m = Some ob \<and> (asks ob = [] \<or> bids ob = []))"
  shows "get_order_book_prices m = Inr None"
  using assms
  by (auto simp: get_order_book_prices_def best_ask_eq best_bid_eq split: option.splits)

text \<open>
  C2. A non-empty mapping of explicit prices is used directly: the buy side
  is its entry "buy", the sell side its entry "sell". With no mapping (None
  or empty): when order-book detection is requested, both books are present,
  each has asks and bids, and the market has at least two token ids, the buy
  side is built from the lowest asks and the sell side from the highest bids
  of the two books; when order-book detection is not requested, or a book is
  missing, or a book has no asks or no bids, both sides are the raw catalog
  prices. When the selected buy side or sell side is absent, the detector
  returns the empty list.
\<close>

theorem price_source_precedence:
  "(d \<noteq> [] \<longrightarrow>
      price_sources m u (Some d) = Inr (map_of d ''buy'', map_of d ''sell''))
   \<and> ((c = None \<or> c = Some []) \<and> u
        \<and> m_order_book_yes m = Some oby \<and> m_order_book_no m = Some obn
        \<and> asks oby \<noteq> [] \<and> asks obn \<noteq> [] \<and> bids oby \<noteq> [] \<and> bids obn \<noteq> []
        \<and> 2 \<le> length (m_clob_token_ids m) \<longrightarrow>
      price_sources m u c = Inr
        (Some \<lparr>token_id_yes = m_clob_token_ids m ! 0, token_id_no = m_clob_token_ids m ! 1,
           price_yes = Min (fst ` set (asks oby)), price_no = Min (fst ` set (asks obn)),
           outcome_yes = (if m_outcomes m \<noteq> [] then m_outcomes m ! 0 else ''Yes''),
           outcome_no = (if length (m_outcomes m) > 1 then m_outcomes m ! 1 else ''No'')\<rparr>,
         Some \<lparr>token_id_yes = m_clob_token_ids m ! 0, token_id_no = m_clob_token_ids m ! 1,
           price_yes = Max (fst ` set (bids oby)), price_no = Max (fst ` set (bids obn)),
           outcome_yes = (if m_outcomes m \<noteq> [] then m_outcomes m ! 0 else ''Yes''),
           outcome_no = (if length (m_outcomes m) > 1 then m_outcomes m ! 1 else ''No'')\<rparr>))
   \<and> ((c = None \<or> c = Some [])
        \<and> (\<not> u \<or> m_order_book_yes m = None \<or> m_order_book_no m = None
            \<or> (\<exists>ob. m_order_book_yes m = Some ob \<and> (asks ob = [] \<or> bids ob = []))
            \<or> (\<exists>ob. m_order_book_no m = Some ob \<and> (asks ob = [] \<or> bids ob = []))) \<longrightarrow>
      price_sources m u c = Inr (get_prices m, get_prices m))
   \<and> (price_sources m u c = Inr (bo, so) \<and> (bo = None \<or> so = None) \<longrightarrow>
      detect_single_condition_arbitrage m t u c = Inr [])"
proof (intro conjI impI)
  assume "d \<noteq> []"
  then show "price_sources m u (Some d) = Inr (map_of d ''buy'', map_of d ''sell'')"
    by (rule sources_mapping)
next
  assume a: "(c = None \<or> c = Some []) \<and> u
        \<and> m_order_book_yes m = Some oby \<and> m_order_book_no m = Some obn
        \<and> asks oby \<noteq> [] \<and> asks obn \<noteq> [] \<and> bids oby \<noteq> [] \<and> bids obn \<noteq> []
        \<and> 2 \<le> length (m_clob_token_ids m)"
  then have c: "c = None \<or> c = Some []" and u: u by simp_all
  from a have "get_order_book_prices m = Inr (Some
      (\<lparr>token_id_yes = m_clob_token_ids m ! 0, token_id_no = m_clob_token_ids m ! 1,
        price_yes = Min (fst ` set (asks oby)), price_no = Min (fst ` set (asks obn)),
        outcome_yes = (if m_outcomes m \<noteq> [] then m_outcomes m ! 0 else ''Yes''),
        outcome_no = (if length (m_outcomes m) > 1 then m_outcomes m ! 1 else ''No'')\<rparr>,
       \<lparr>token_id_yes = m_clob_token_ids m ! 0, token_id_no = m_clob_token_ids m ! 1,
        price_yes = Max (fst ` set (bids oby)), price_no = Max (fst ` set (bids obn)),
        outcome_yes = (if m_outcomes m \<noteq> [] then m_outcomes m ! 0 else ''Yes''),
        outcome_no = (if length (m_outcomes m) > 1 then m_outcomes m ! 1 else ''No'')\<rparr>))"
    by (intro order_book_prices_liquid) simp_all
  with u show "price_sources m u c = Inr
        (Some \<lparr>token_id_yes = m_clob_token_ids m ! 0, token_id_no = m_clob_token_ids m ! 1,
           price_yes = Min (fst ` set (asks oby)), price_no = Min (fst ` set (asks obn)),
           outcome_yes = (if m_outcomes m \<noteq> [] then m_outcomes m ! 0 else ''Yes''),
           outcome_no = (if length (m_outcomes m) > 1 then m_outcomes m ! 1 else ''No'')\<rparr>,
         Some \<lparr>token_id_yes = m_clob_token_ids m ! 0, token_id_no = m_clob_token_ids m ! 1,
           price_yes = Max (fst ` set (bids oby)), price_no = Max (fst ` set (bids obn)),
           outcome_yes = (if m_outcomes m \<noteq> [] then m_outcomes m ! 0 else ''Yes''),
           outcome_no = (if length (m_outcomes m) > 1 then m_outcomes m ! 1 else ''No'')\<rparr>)"
    by (simp add: sources_no_mapping [OF c])
next
  assume a: "(c = None \<or> c = Some [])
        \<and> (\<not> u \<or> m_order_book_yes m = None \<or> m_order_book_no m = None
            \<or> (\<exists>ob. m_order_book_yes m = Some ob \<and> (asks ob = [] \<or> bids ob = []))
            \<or> (\<exists>ob. m_order_book_no m = Some ob \<and> (asks ob = [] \<or> bids ob = [])))"
  then have c: "c = None \<or> c = Some []" by simp
  show "price_sources m u c = Inr (get_prices m, get_prices m)"
  proof (cases u)
    case False
    then show ?thesis by (simp add: sources_no_mapping [OF c])
  next
    case True
    with a have "get_order_book_prices m = Inr None"
      by (intro order_book_prices_missing) simp
    with True show ?thesis by (simp add: sources_no_mapping [OF c])
  qed
next
  assume "price_sources m u c = Inr (bo, so) \<and> (bo = None \<or> so = None)"
  then show "detect_single_condition_arbitrage m t u c = Inr []"
    using detect_missing by blast
qed

lemma sources_books:
  "price_sources market_books True None = Inr (Some prices_raw, Some prices_bid)"
  by (simp add: price_sources_def get_order_book_prices_def best_ask_def best_bid_def
      py_index_def Let_def market_books_def market_raw_def book_yes_def book_no_def
      prices_raw_def prices_bid_def)

lemma min_max_books:
  "Min (fst ` set (asks book_yes)) = 45/100" "Min (fst ` set (asks book_no)) = 1/2"
  "Max (fst ` set (bids book_yes)) = 42/100" "Max (fst ` set (bids book_no)) = 48/100"
  by (simp_all add: book_yes_def book_no_def)

theorem price_source_precedence_witness:
  "price_sources market_raw True (Some [(''buy'', prices_raw), (''sell'', prices_high)])
     = Inr (Some prices_raw, Some prices_high)
   \<and> price_sources market_books True None = Inr (Some prices_raw, Some prices_bid)
   \<and> price_sources market_one_book True None = Inr (Some prices_raw, Some prices_raw)
   \<and> price_sources market_no_prices True None = Inr (None, None)
   \<and> detect_single_condition_arbitrage market_no_prices (3/100) True None = Inr []"
proof -
  have 1: "price_sources market_raw True (Some [(''buy'', prices_raw), (''sell'', prices_high)])
     = Inr (Some prices_raw, Some prices_high)"
    using price_source_precedence [of "[(''buy'', prices_raw), (''sell'', prices_high)]"
        market_raw True]
    by simp
  have 2: "price_sources market_books True None = Inr (Some prices_raw, Some prices_bid)"
    using price_source_precedence [of _ market_books True None book_yes book_no]
    by (simp add: min_max_books)
       (simp add: market_books_def market_raw_def book_yes_def book_no_def
          prices_raw_def prices_bid_def)
  have g1: "get_prices market_one_book = Some prices_raw"
    by (simp add: get_prices_def gamma_prices_def market_one_book_def market_raw_def prices_raw_def)
  have 3: "price_sources market_one_book True None = Inr (Some prices_raw, Some prices_raw)"
    using price_source_precedence [of _ market_one_book True None]
    by (simp add: g1) (simp add: market_one_book_def market_raw_def)
  have g2: "get_prices market_no_prices = None"
    by (simp add: get_prices_def gamma_prices_def market_no_prices_def market_raw_def)
  have 4: "price_sources market_no_prices True None = Inr (None, None)"
    using price_source_precedence [of _ market_no_prices True None]
    by (simp add: g2) (simp add: market_no_prices_def market_raw_def)
  have 5: "detect_single_condition_arbitrage market_no_prices (3/100) True None = Inr []"
    using price_source_precedence [of _ market_no_prices True None _ _ None None "3/100"] 4
    by simp
  from 1 2 3 4 5 show ?thesis by simp
qed

text \<open>
  A mapping that holds only the entry "buy" is used as it is: the sell side is
  absent and the detector returns the empty list, although the raw catalog
  prices of the same market give an opportunity when no mapping is passed.
\<close>

theorem partial_mapping_no_fallback:
  "price_sources market_raw True (Some [(''buy'', prices_raw)]) = Inr (Some prices_raw, None)
   \<and> get_prices market_raw = Some prices_raw
   \<and> detect_single_condition_arbitrage market_raw (3/100) True (Some [(''buy'', prices_raw)])
       = Inr []
   \<and> detect_single_condition_arbitrage market_raw (3/100) True None
       = Inr [opportunity_of market_raw ''buy_both'' prices_raw]"
  by (simp add: get_prices_raw detect_raw_low)
     (simp add: detect_single_condition_arbitrage_def price_sources_def)

text \<open>
  C7. A market that carries both order books, each with asks and bids, and a
  single token id: the order-book prices cannot be built, the raw catalog
  prices are absent as well, and the detector raises IndexError.
\<close>

theorem detector_raises_on_short_token_ids:
  "get_order_book_prices market_one_id = Inl IndexError
   \<and> get_prices market_one_id = None
   \<and> detect_single_condition_arbitrage market_one_id (3/100) True None = Inl IndexError"
  by (simp add: detect_single_condition_arbitrage_def price_sources_def
      get_order_book_prices_def get_prices_def gamma_prices_def best_ask_def best_bid_def
      py_index_def Let_def market_one_id_def market_books_def market_raw_def book_yes_def book_no_def)

section \<open>Properties of the depth estimate\<close>

lemma max_extractable_usd_value:
  assumes "opp_order_book_yes opp = Some oby" "opp_order_book_no opp = Some obn"
    and "opp_direction opp = ''buy_both''
           \<and> dy = sum_list (map snd (asks oby)) \<and> dn = sum_list (map snd (asks obn))
         \<or> opp_direction opp = ''sell_both''
           \<and> dy = sum_list (map snd (bids oby)) \<and> dn = sum_list (map snd (bids obn))"
  shows "max_extractable_usd opp max_size =
     Some (opp_profit_margin opp * (case max_size of None \<Rightarrow> min dy dn
                                      | Some ms \<Rightarrow> min (min dy dn) ms))"
  using assms by (auto simp: max_extractable_usd_def Let_def split: option.splits)

text \<open>
  C4. For an opportunity with both order books present, where each leg's depth
  is the sum of its ask sizes for the direction buy\_both and the sum of its
  bid sizes for the direction sell\_both: the estimate is the profit margin
  times the cap, the cap being the smaller of the two depths, lowered to
  max\_size when one is given. When the profit margin is not negative, the
  estimate does not exceed the margin times the smaller depth; when moreover
  both depths and the max\_size given are not negative, the estimate is not
  negative.
\<close>

theorem max_extractable_usd_cap:
  "opp_order_book_yes opp = Some oby \<and> opp_order_book_no opp = Some obn
   \<and> (opp_direction opp = ''buy_both''
         \<and> dy = sum_list (map snd (asks oby)) \<and> dn = sum_list (map snd (asks obn))
       \<or> opp_direction opp = ''sell_both''
         \<and> dy = sum_list (map snd (bids oby)) \<and> dn = sum_list (map snd (bids obn)))
   \<longrightarrow>
     max_extractable_usd opp None = Some (opp_profit_margin opp * min dy dn)
   \<and> max_extractable_usd opp (Some ms) = Some (opp_profit_margin opp * min (min dy dn) ms)
   \<and> (0 \<le> opp_profit_margin opp \<longrightarrow>
        (\<exists>v. max_extractable_usd opp max_size = Some v
           \<and> v \<le> opp_profit_margin opp * min dy dn))
   \<and> (0 \<le> opp_profit_margin opp \<and> 0 \<le> dy \<and> 0 \<le> dn
        \<and> (max_size = None \<or> (\<exists>k. max_size = Some k \<and> 0 \<le> k)) \<longrightarrow>
        (\<exists>v. max_extractable_usd opp max_size = Some v \<and> 0 \<le> v))"
proof (intro impI)
  assume a: "opp_order_book_yes opp = Some oby \<and> opp_order_book_no opp = Some obn
   \<and> (opp_direction opp = ''buy_both''
         \<and> dy = sum_list (map snd (asks oby)) \<and> dn = sum_list (map snd (asks obn))
       \<or> opp_direction opp = ''sell_both''
         \<and> dy = sum_list (map snd (bids oby)) \<and> dn = sum_list (map snd (bids obn)))"
  then have v: "\<And>mx. max_extractable_usd opp mx =
     Some (opp_profit_margin opp * (case mx of None \<Rightarrow> min dy dn
                                      | Some ms \<Rightarrow> min (min dy dn) ms))"
    by (intro max_extractable_usd_value) blast+
  have 1: "max_extractable_usd opp None = Some (opp_profit_margin opp * min dy dn)"
    by (simp add: v)
  have 2: "max_extractable_usd opp (Some ms) = Some (opp_profit_margin opp * min (min dy dn) ms)"
    by (simp add: v)
  have 3: "\<exists>v. max_extractable_usd opp max_size = Some v
           \<and> v \<le> opp_profit_margin opp * min dy dn"
    if "0 \<le> opp_profit_margin opp"
  proof -
    have "(case max_size of None \<Rightarrow> min dy dn | Some ms \<Rightarrow> min (min dy dn) ms) \<le> min dy dn"
      by (cases max_size) (auto simp: min_def)
    from this that
    have "opp_profit_margin opp
            * (case max_size of None \<Rightarrow> min dy dn | Some ms \<Rightarrow> min (min dy dn) ms)
          \<le> opp_profit_margin opp * min dy dn"
      by (rule mult_left_mono)
    then show ?thesis by (simp add: v)
  qed
  have 4: "\<exists>v. max_extractable_usd opp max_size = Some v \<and> 0 \<le> v"
    if "0 \<le> opp_profit_margin opp \<and> 0 \<le> dy \<and> 0 \<le> dn
        \<and> (max_size = None \<or> (\<exists>k. max_size = Some k \<and> 0 \<le> k))"
    using that by (cases max_size) (simp_all add: v)
  from 1 2 3 4 show "max_extractable_usd opp None = Some (opp_profit_margin opp * min dy dn)
   \<and> max_extractable_usd opp (Some ms) = Some (opp_profit_margin opp * min (min dy dn) ms)
   \<and> (0 \<le> opp_profit_margin opp \<longrightarrow>
        (\<exists>v. max_extractable_usd opp max_size = Some v
           \<and> v \<le> opp_profit_margin opp * min dy dn))
   \<and> (0 \<le> opp_profit_margin opp \<and> 0 \<le> dy \<and> 0 \<le> dn
        \<and> (max_size = None \<or> (\<exists>k. max_size = Some k \<and> 0 \<le> k)) \<longrightarrow>
        (\<exists>v. max_extractable_usd opp max_size = Some v \<and> 0 \<le> v))"
    by blast
qed

theorem max_extractable_usd_cap_witness:
  "max_extractable_usd opp_buy None = Some 4
   \<and> max_extractable_usd opp_buy (Some 50) = Some (5/2)
   \<and> (5/2 :: real) \<le> 5/100 * min 100 80
   \<and> (0 :: real) \<le> 5/2"
proof -
  have h: "opp_order_book_yes opp_buy = Some book_yes \<and> opp_order_book_no opp_buy = Some book_no
   \<and> (opp_direction opp_buy = ''buy_both''
         \<and> (100::real) = sum_list (map snd (asks book_yes))
         \<and> (80::real) = sum_list (map snd (asks book_no))
       \<or> opp_direction opp_buy = ''sell_both''
         \<and> (100::real) = sum_list (map snd (bids book_yes))
         \<and> (80::real) = sum_list (map snd (bids book_no)))"
    by (simp add: opp_buy_def book_yes_def book_no_def)
  have m: "opp_profit_margin opp_buy = 5/100"
    by (simp add: opp_buy_def)
  note t = max_extractable_usd_cap [of opp_buy book_yes book_no 100 80 50 "Some 50",
      THEN mp, OF h]
  from t have "max_extractable_usd opp_buy None = Some 4"
    and "max_extractable_usd opp_buy (Some 50) = Some (5/2)"
    by (simp_all add: m)
  then show ?thesis by simp
qed

text \<open>
  The same opportunity with a negative max\_size: the estimate is negative.
\<close>

theorem negative_max_size_gives_negative_estimate:
  "max_extractable_usd opp_buy (Some (- 10)) = Some (- (1/2))
   \<and> opp_order_book_yes opp_buy = Some book_yes
   \<and> opp_order_book_no opp_buy = Some book_no
   \<and> - (1/2) < (0::real)"
  by (simp add: max_extractable_usd_def opp_buy_def book_yes_def book_no_def)

section \<open>Properties of the linear-minimisation oracle\<close>

lemma argmin_from_result:
  "(argmin_from xs i bi b = bi \<and> (\<forall>x\<in>set xs. b \<le> x))
   \<or> (\<exists>j<length xs. argmin_from xs i bi b = i + j \<and> xs ! j < b
         \<and> (\<forall>k<j. xs ! j < xs ! k) \<and> (\<forall>k<length xs. xs ! j \<le> xs ! k))"
proof (induction xs arbitrary: i bi b)
  case Nil
  then show ?case by simp
next
  case (Cons y ys)
  show ?case
  proof (cases "y < b")
    case True
    from Cons.IH [of "Suc i" i y]
    show ?thesis
    proof (elim disjE conjE exE)
      assume r: "argmin_from ys (Suc i) i y = i" and a: "\<forall>x\<in>set ys. y \<le> x"
      have "\<forall>k<length (y # ys). (y # ys) ! 0 \<le> (y # ys) ! k"
        using a by (auto simp: nth_Cons' )
      with True r have "0 < length (y # ys) \<and> argmin_from (y # ys) i bi b = i + 0
          \<and> (y # ys) ! 0 < b \<and> (\<forall>k<0. (y # ys) ! 0 < (y # ys) ! k)
          \<and> (\<forall>k<length (y # ys). (y # ys) ! 0 \<le> (y # ys) ! k)"
        by simp
      then show ?thesis by blast
    next
      fix j
      assume j: "j < length ys" and r: "argmin_from ys (Suc i) i y = Suc i + j"
        and l: "ys ! j < y" and f: "\<forall>k<j. ys ! j < ys ! k"
        and m: "\<forall>k<length ys. ys ! j \<le> ys ! k"
      have 1: "\<forall>k<Suc j. (y # ys) ! Suc j < (y # ys) ! k"
        using l f by (auto simp: nth_Cons')
      have 2: "\<forall>k<length (y # ys). (y # ys) ! Suc j \<le> (y # ys) ! k"
        using l m by (auto simp: nth_Cons')
      from True r l j have "Suc j < length (y # ys) \<and> argmin_from (y # ys) i bi b = i + Suc j
          \<and> (y # ys) ! Suc j < b"
        by simp
      with 1 2 show ?thesis by blast
    qed
  next
    case False
    from Cons.IH [of "Suc i" bi b]
    show ?thesis
    proof (elim disjE conjE exE)
      assume r: "argmin_from ys (Suc i) bi b = bi" and a: "\<forall>x\<in>set ys. b \<le> x"
      with False show ?thesis by simp
    next
      fix j
      assume j: "j < length ys" and r: "argmin_from ys (Suc i) bi b = Suc i + j"
        and l: "ys ! j < b" and f: "\<forall>k<j. ys ! j < ys ! k"
        and m: "\<forall>k<length ys. ys ! j \<le> ys ! k"
      have 1: "\<forall>k<Suc j. (y # ys) ! Suc j < (y # ys) ! k"
        using l f False by (auto simp: nth_Cons')
      have 2: "\<forall>k<length (y # ys). (y # ys) ! Suc j \<le> (y # ys) ! k"
        using l m False by (auto simp: nth_Cons')
      from False r l j have "Suc j < length (y # ys) \<and> argmin_from (y # ys) i bi b = i + Suc j
          \<and> (y # ys) ! Suc j < b"
        by simp
      with 1 2 show ?thesis by blast
    qed
  qed
qed

lemma argmin_first_min:
  assumes "g \<noteq> []"
  shows "\<exists>i. argmin g = Inr i \<and> first_min_index g i"
proof -
  from assms obtain x xs where g: "g = x # xs" by (cases g) auto
  from argmin_from_result [of xs 1 0 x]
  show ?thesis
  proof (elim disjE conjE exE)
    assume r: "argmin_from xs 1 0 x = 0" and a: "\<forall>y\<in>set xs. x \<le> y"
    have "first_min_index (x # xs) 0"
      using a by (auto simp: first_min_index_def nth_Cons')
    with r g show ?thesis by simp
  next
    fix j
    assume j: "j < length xs" and r: "argmin_from xs 1 0 x = 1 + j"
      and l: "xs ! j < x" and f: "\<forall>k<j. xs ! j < xs ! k"
      and m: "\<forall>k<length xs. xs ! j \<le> xs ! k"
    have "first_min_index (x # xs) (Suc j)"
      using j l f m by (auto simp: first_min_index_def nth_Cons')
    with r g show ?thesis by simp
  qed
qed

lemma first_min_index_unique:
  "first_min_index g i \<Longrightarrow> first_min_index g j \<Longrightarrow> i = j"
  unfolding first_min_index_def
  by (metis linorder_neqE_nat not_less)

lemma oracle_nonempty:
  assumes "g \<noteq> []"
  shows "\<exists>i. first_min_index g i \<and> frank_wolfe_oracle g A b = Inr (unit_vector (length g) i)"
  using argmin_first_min [OF assms]
  by (auto simp: frank_wolfe_oracle_def zeros_like_def unit_vector_def)

lemma oracle_empty: "frank_wolfe_oracle [] A b = Inl ValueError"
  by (simp add: frank_wolfe_oracle_def)

lemma dot_unit:
  "i < length g \<Longrightarrow> dot g (unit_vector (length g) i) = g ! i"
proof (induction g arbitrary: i)
  case Nil
  then show ?case by simp
next
  case (Cons a g)
  have z: "dot g (replicate (length g) 0) = 0"
    by (induction g) (simp_all add: dot_def)
  show ?case
  proof (cases i)
    case 0
    then show ?thesis using z by (simp add: dot_def unit_vector_def)
  next
    case (Suc k)
    with Cons.prems have "k < length g" by simp
    from Cons.IH [OF this] Suc show ?thesis
      by (simp add: dot_def unit_vector_def)
  qed
qed

lemma sum_list_unit: "i < n \<Longrightarrow> sum_list (unit_vector n i) = 1"
proof (induction n arbitrary: i)
  case 0
  then show ?case by simp
next
  case (Suc n)
  show ?case
  proof (cases i)
    case 0
    then show ?thesis by (simp add: unit_vector_def sum_list_replicate)
  next
    case (Suc k)
    with Suc.prems have "k < n" by simp
    from Suc.IH [OF this] Suc show ?thesis
      by (simp add: unit_vector_def)
  qed
qed

lemma unit_in_simplex: "i < n \<Longrightarrow> in_simplex (unit_vector n i)"
proof -
  assume i: "i < n"
  have "\<forall>v\<in>set (unit_vector n i). 0 \<le> v"
    unfolding unit_vector_def using set_update_subset_insert [of "replicate n (0::real)" i 1]
    by auto
  with sum_list_unit [OF i] show ?thesis
    by (simp add: in_simplex_def list_all_iff)
qed

lemma dot_lower_bound:
  "length x = length g \<Longrightarrow> \<forall>j<length g. m \<le> g ! j \<Longrightarrow> list_all (\<lambda>v. 0 \<le> v) x \<Longrightarrow>
   m * sum_list x \<le> dot g x"
proof (induction x g rule: list_induct2)
  case Nil
  then show ?case by (simp add: dot_def)
next
  case (Cons v x a g)
  from Cons.prems have m: "m \<le> a" and r: "\<forall>j<length g. m \<le> g ! j"
    and v: "0 \<le> v" and p: "list_all (\<lambda>v. 0 \<le> v) x"
    by (force, force, simp, simp)
  from Cons.IH [OF r p] have "m * sum_list x \<le> dot g x" .
  moreover from m v have "m * v \<le> a * v" by (rule mult_right_mono)
  ultimately show ?case by (simp add: dot_def algebra_simps)
qed

lemma unit_minimises:
  assumes "first_min_index g i" "length x = length g" "in_simplex x"
  shows "dot g (unit_vector (length g) i) \<le> dot g x"
proof -
  from assms(1) have i: "i < length g" and m: "\<forall>j<length g. g ! i \<le> g ! j"
    by (simp_all add: first_min_index_def)
  from assms(3) have p: "list_all (\<lambda>v. 0 \<le> v) x" and s: "sum_list x = 1"
    by (simp_all add: in_simplex_def)
  from dot_lower_bound [OF assms(2) m p] s have "g ! i \<le> dot g x" by simp
  with dot_unit [OF i] show ?thesis by simp
qed

text \<open>
  C6. For every non-empty gradient, whatever the constraint matrix and
  right-hand side, the oracle returns the standard basis vector at the first
  index of the gradient's minimum component. That vector lies in the
  probability simplex and minimises the linear functional gradient . x over
  all vectors of the simplex of the same length. For the empty gradient the
  oracle raises the ValueError of argmin.
\<close>

theorem oracle_simplex_vertex:
  "(g = [] \<longrightarrow> frank_wolfe_oracle g A b = Inl ValueError)
   \<and> (g \<noteq> [] \<longrightarrow>
     (\<exists>i. first_min_index g i
        \<and> frank_wolfe_oracle g A b = Inr (unit_vector (length g) i)
        \<and> in_simplex (unit_vector (length g) i)
        \<and> (\<forall>x. length x = length g \<and> in_simplex x \<longrightarrow>
              dot g (unit_vector (length g) i) \<le> dot g x)))"
proof (intro conjI impI)
  assume "g = []"
  then show "frank_wolfe_oracle g A b = Inl ValueError"
    by (simp add: oracle_empty)
next
  assume "g \<noteq> []"
  from oracle_nonempty [OF this] obtain i where
    f: "first_min_index g i" and r: "frank_wolfe_oracle g A b = Inr (unit_vector (length g) i)"
    by blast
  from f have "i < length g" by (simp add: first_min_index_def)
  then have s: "in_simplex (unit_vector (length g) i)" by (rule unit_in_simplex)
  from f have "\<forall>x. length x = length g \<and> in_simplex x \<longrightarrow>
      dot g (unit_vector (length g) i) \<le> dot g x"
    using unit_minimises by blast
  with f r s show "\<exists>i. first_min_index g i
        \<and> frank_wolfe_oracle g A b = Inr (unit_vector (length g) i)
        \<and> in_simplex (unit_vector (length g) i)
        \<and> (\<forall>x. length x = length g \<and> in_simplex x \<longrightarrow>
              dot g (unit_vector (length g) i) \<le> dot g x)"
    by blast
qed

lemma first_min_three: "first_min_index [3, 1, 2, 1] i = (i = 1)"
proof
  assume "first_min_index [3, 1, 2, 1] i"
  moreover have "first_min_index [3, 1, 2, 1 :: real] 1"
    by (auto simp: first_min_index_def nth_Cons' )
  ultimately show "i = 1" by (rule first_min_index_unique)
next
  assume "i = 1"
  then show "first_min_index [3, 1, 2, 1] i"
    by (auto simp: first_min_index_def nth_Cons')
qed

theorem oracle_simplex_vertex_witness:
  "frank_wolfe_oracle [3, 1, 2, 1] constraint_matrix_ex constraint_rhs_ex = Inr [0, 1, 0, 0]
   \<and> in_simplex [0, 1, 0, 0]
   \<and> dot [3, 1, 2, 1] [0, 1, 0, 0] \<le> dot [3, 1, 2, 1] [1/4, 1/4, 1/4, 1/4]"
proof -
  have n: "([3, 1, 2, 1] :: real list) \<noteq> []" by simp
  have u: "unit_vector (length [3, 1, 2, 1 :: real]) 1 = [0, 1, 0, 0]"
    by (simp add: unit_vector_def)
  have q: "length [1/4, 1/4, 1/4, 1/4 :: real] = length [3, 1, 2, 1 :: real]
      \<and> in_simplex [1/4, 1/4, 1/4, 1/4]"
    by (simp add: in_simplex_def)
  from oracle_simplex_vertex [of "[3, 1, 2, 1]" constraint_matrix_ex constraint_rhs_ex,
      THEN conjunct2, THEN mp, OF n]
  obtain i where f: "first_min_index [3, 1, 2, 1] i"
    and r: "frank_wolfe_oracle [3, 1, 2, 1] constraint_matrix_ex constraint_rhs_ex
       = Inr (unit_vector (length [3, 1, 2, 1 :: real]) i)"
    and s: "in_simplex (unit_vector (length [3, 1, 2, 1 :: real]) i)"
    and d: "\<forall>x. length x = length [3, 1, 2, 1 :: real] \<and> in_simplex x \<longrightarrow>
              dot [3, 1, 2, 1] (unit_vector (length [3, 1, 2, 1 :: real]) i) \<le> dot [3, 1, 2, 1] x"
    by blast
  from f have i: "i = 1" by (simp only: first_min_three)
  from d q have "dot [3, 1, 2, 1] (unit_vector (length [3, 1, 2, 1 :: real]) i)
      \<le> dot [3, 1, 2, 1] [1/4, 1/4, 1/4, 1/4]"
    by blast
  with r s show ?thesis unfolding i u by simp
qed

text \<open>
  A constraint system that the result does not satisfy: for the gradient
  (1, 2) and the constraints x1 = 1/2, x2 = 1/2 (the identity matrix with the
  right-hand side (1/2, 1/2)) the oracle returns (1, 0). The constraint system
  maps it to (1, 0), which differs from the right-hand side in both components,
  above it in the first and below it in the second; the point (1/2, 1/2)
  satisfies the constraints. For the empty gradient and the empty constraint
  system the oracle returns no vector.
\<close>

theorem oracle_ignores_polytope:
  "frank_wolfe_oracle [] [] [] = Inl ValueError
   \<and> frank_wolfe_oracle gradient_ex constraint_matrix_ex constraint_rhs_ex = Inr [1, 0]
   \<and> mat_vec constraint_matrix_ex [1, 0] = [1, 0]
   \<and> constraint_rhs_ex = [1/2, 1/2]
   \<and> mat_vec constraint_matrix_ex [1, 0] ! 0 > constraint_rhs_ex ! 0
   \<and> mat_vec constraint_matrix_ex [1, 0] ! 1 < constraint_rhs_ex ! 1
   \<and> mat_vec constraint_matrix_ex [1/2, 1/2] = constraint_rhs_ex"
  by (simp add: frank_wolfe_oracle_def zeros_like_def mat_vec_def dot_def
      gradient_ex_def constraint_matrix_ex_def constraint_rhs_ex_def)

text \<open>
  C10. For every gradient and any two pairs of constraint matrix and
  right-hand side the oracle gives the same outcome: for a non-empty gradient
  the standard basis vector at the first index of its minimum component, for
  the empty gradient the ValueError of argmin.
\<close>

theorem oracle_depends_on_gradient_only:
  "frank_wolfe_oracle g A b = frank_wolfe_oracle g A' b'
   \<and> (g = [] \<and> frank_wolfe_oracle g A b = Inl ValueError
       \<or> g \<noteq> [] \<and> (\<exists>i. first_min_index g i
            \<and> frank_wolfe_oracle g A b = Inr (unit_vector (length g) i)))"
proof (cases "g = []")
  case True
  then show ?thesis by (simp add: frank_wolfe_oracle_def)
next
  case False
  from oracle_nonempty [OF this, of A b] False show ?thesis
    by (simp add: frank_wolfe_oracle_def)
qed

theorem oracle_depends_on_gradient_only_witness:
  "frank_wolfe_oracle [3, 1, 2, 1] constraint_matrix_ex constraint_rhs_ex
     = frank_wolfe_oracle [3, 1, 2, 1] [] []
   \<and> frank_wolfe_oracle [3, 1, 2, 1] constraint_matrix_ex constraint_rhs_ex = Inr [0, 1, 0, 0]"
proof -
  have u: "unit_vector (length [3, 1, 2, 1 :: real]) 1 = [0, 1, 0, 0]"
    by (simp add: unit_vector_def)
  note t = oracle_depends_on_gradient_only [of "[3, 1, 2, 1]" constraint_matrix_ex
      constraint_rhs_ex "[]" "[]"]
  from t have e: "frank_wolfe_oracle [3, 1, 2, 1] constraint_matrix_ex constraint_rhs_ex
     = frank_wolfe_oracle [3, 1, 2, 1] [] []"
    by blast
  from t obtain i where f: "first_min_index [3, 1, 2, 1] i"
    and r: "frank_wolfe_oracle [3, 1, 2, 1] constraint_matrix_ex constraint_rhs_ex
       = Inr (unit_vector (length [3, 1, 2, 1 :: real]) i)"
    by auto
  from f have i: "i = 1" by (simp only: first_min_three)
  from r have "frank_wolfe_oracle [3, 1, 2, 1] constraint_matrix_ex constraint_rhs_ex
       = Inr [0, 1, 0, 0]"
    unfolding i u .
  with e show ?thesis by simp
qed

text \<open>
  The empty gradient: the oracle returns no vector, it raises the ValueError
  of argmin.
\<close>

theorem oracle_empty_gradient:
  "frank_wolfe_oracle [] constraint_matrix_ex constraint_rhs_ex = Inl ValueError"
  by (simp add: frank_wolfe_oracle_def)

section \<open>Properties of the divergence\<close>

lemma clip_bounds: "lo \<le> hi \<Longrightarrow> lo \<le> clip x lo hi \<and> clip x lo hi \<le> hi"
  by (simp add: clip_def min_def max_def)

lemma np_clip_bounds:
  "lo \<le> hi \<Longrightarrow> list_all (\<lambda>x. lo \<le> x \<and> x \<le> hi) (np_clip a lo hi)"
  by (simp add: np_clip_def list_all_iff clip_bounds)

lemma np_clip_positive:
  assumes "0 < eps" "eps \<le> 1/2"
  shows "list_all (\<lambda>x. 0 < x) (np_clip a eps (1 - eps))"
proof -
  from assms have "eps \<le> 1 - eps" by simp
  from np_clip_bounds [OF this, of a] assms(1) show ?thesis
    by (auto simp: list_all_iff)
qed

lemma np_log_clipped:
  "0 < eps \<Longrightarrow> eps \<le> 1/2 \<Longrightarrow>
   np_log (np_clip a eps (1 - eps)) = Inr (map ln (np_clip a eps (1 - eps)))"
  by (simp add: np_log_def np_clip_positive)

lemma broadcast2_error: "broadcast2 f xs ys = Inl e \<Longrightarrow> e = ShapeError"
  by (auto simp: broadcast2_def split: if_splits list.splits)

lemma broadcast2_same_length:
  "length xs = length ys \<Longrightarrow> broadcast2 f xs ys = Inr (map2 f xs ys)"
  by (simp add: broadcast2_def)

lemma kl_no_domain_error:
  assumes "0 < eps" "eps \<le> 1/2"
  shows "kl_divergence mu theta eps \<noteq> Inl NonFinite"
  using broadcast2_error
  by (fastforce simp: kl_divergence_def Let_def np_log_clipped [OF assms]
      split: sum.splits)

lemma sum_terms:
  "length ms = length ts \<Longrightarrow>
   sum_list (map2 (*) ms (map2 (-) (map ln ms) (map ln ts)))
     = sum_list (map2 (\<lambda>m t. m * (ln m - ln t)) ms ts)"
  by (induction ms ts rule: list_induct2) simp_all

lemma kl_same_length:
  assumes "0 < eps" "eps \<le> 1/2" "length mu = length theta"
  shows "kl_divergence mu theta eps =
     Inr (sum_list (map2 (\<lambda>m t. m * (ln m - ln t))
            (np_clip mu eps (1 - eps)) (np_clip theta eps (1 - eps))))"
proof -
  have l: "length (np_clip mu eps (1 - eps)) = length (np_clip theta eps (1 - eps))"
    using assms(3) by (simp add: np_clip_def)
  show ?thesis
    using l
    by (simp add: kl_divergence_def Let_def np_log_clipped [OF assms(1,2)]
        broadcast2_same_length sum_terms)
qed

lemma kl_eps_default_range: "0 < kl_eps_default" "kl_eps_default \<le> 1/2"
  by (simp_all add: kl_eps_default_def)

text \<open>
  C5. Every evaluation of the divergence clips both arguments into
  [eps, 1 - eps], where eps is the parameter of kl\_divergence; the objective
  of the projector calls it with the default 1e-10, whatever box the projector
  was given. For every eps with 0 < eps \<le> 1/2 all clipped components lie in
  [eps, 1 - eps], every logarithm is taken of a positive number, the
  evaluation never meets a logarithm of zero or of a negative number, and for
  vectors of the same length the value is the sum of m (ln m - ln t) over the
  clipped components. All of this holds for the default 1e-10.
\<close>

theorem kl_clipping:
  "objective bounds theta mu = kl_divergence mu theta kl_eps_default
   \<and> 0 < kl_eps_default \<and> kl_eps_default \<le> 1/2
   \<and> objective bounds theta mu \<noteq> Inl NonFinite
   \<and> (0 < eps \<and> eps \<le> 1/2 \<longrightarrow>
        list_all (\<lambda>x. eps \<le> x \<and> x \<le> 1 - eps) (np_clip theta eps (1 - eps))
      \<and> list_all (\<lambda>x. eps \<le> x \<and> x \<le> 1 - eps) (np_clip mu eps (1 - eps))
      \<and> np_log (np_clip theta eps (1 - eps)) = Inr (map ln (np_clip theta eps (1 - eps)))
      \<and> np_log (np_clip mu eps (1 - eps)) = Inr (map ln (np_clip mu eps (1 - eps)))
      \<and> kl_divergence mu theta eps \<noteq> Inl NonFinite
      \<and> (length mu = length theta \<longrightarrow>
           kl_divergence mu theta eps =
             Inr (sum_list (map2 (\<lambda>m t. m * (ln m - ln t))
                    (np_clip mu eps (1 - eps)) (np_clip theta eps (1 - eps))))))"
proof (intro conjI impI)
  show "objective bounds theta mu = kl_divergence mu theta kl_eps_default"
    by (simp add: objective_def)
  show "0 < kl_eps_default" "kl_eps_default \<le> 1/2"
    by (rule kl_eps_default_range)+
  show "objective bounds theta mu \<noteq> Inl NonFinite"
    unfolding objective_def by (rule kl_no_domain_error) (rule kl_eps_default_range)+
next
  assume a: "0 < eps \<and> eps \<le> 1/2"
  then have e: "eps \<le> 1 - eps" by simp
  from e show "list_all (\<lambda>x. eps \<le> x \<and> x \<le> 1 - eps) (np_clip theta eps (1 - eps))"
    by (rule np_clip_bounds)
  from e show "list_all (\<lambda>x. eps \<le> x \<and> x \<le> 1 - eps) (np_clip mu eps (1 - eps))"
    by (rule np_clip_bounds)
  from a show "np_log (np_clip theta eps (1 - eps)) = Inr (map ln (np_clip theta eps (1 - eps)))"
    by (simp add: np_log_clipped)
  from a show "np_log (np_clip mu eps (1 - eps)) = Inr (map ln (np_clip mu eps (1 - eps)))"
    by (simp add: np_log_clipped)
  from a show "kl_divergence mu theta eps \<noteq> Inl NonFinite"
    by (simp add: kl_no_domain_error)
next
  assume a: "0 < eps \<and> eps \<le> 1/2" and l: "length mu = length theta"
  then show "kl_divergence mu theta eps =
             Inr (sum_list (map2 (\<lambda>m t. m * (ln m - ln t))
                    (np_clip mu eps (1 - eps)) (np_clip theta eps (1 - eps))))"
    by (simp add: kl_same_length)
qed

theorem kl_clipping_witness:
  "np_clip [0, 1/2, 2] (1/4) (1 - 1/4) = [1/4, 1/2, 3/4]
   \<and> list_all (\<lambda>x. 1/4 \<le> x \<and> x \<le> 1 - 1/4) (np_clip [0, 1/2, 2] (1/4) (1 - 1/4))
   \<and> kl_divergence [1/2] [0, 1/2, 2] (1/4) \<noteq> Inl NonFinite
   \<and> kl_divergence [0, 1/2, 2] [0, 1/2, 2] (1/4) = Inr 0"
proof -
  have h: "(0::real) < 1/4 \<and> (1/4::real) \<le> 1/2" by simp
  note t = kl_clipping [of "(0, 1)" "[0, 1/2, 2]" "[0, 1/2, 2]" "1/4",
      THEN conjunct2, THEN conjunct2, THEN conjunct2, THEN conjunct2, THEN mp, OF h]
  note s = kl_clipping [of "(0, 1)" "[0, 1/2, 2]" "[1/2]" "1/4",
      THEN conjunct2, THEN conjunct2, THEN conjunct2, THEN conjunct2, THEN mp, OF h]
  have c: "np_clip [0, 1/2, 2] (1/4) (1 - 1/4) = [1/4, 1/2, 3/4]"
    by (simp add: np_clip_def clip_def)
  from t have 1: "list_all (\<lambda>x. 1/4 \<le> x \<and> x \<le> 1 - 1/4) (np_clip [0, 1/2, 2] (1/4) (1 - 1/4))"
    by blast
  from s have 2: "kl_divergence [1/2] [0, 1/2, 2] (1/4) \<noteq> Inl NonFinite"
    by blast
  from t have "kl_divergence [0, 1/2, 2] [0, 1/2, 2] (1/4) =
             Inr (sum_list (map2 (\<lambda>m t. m * (ln m - ln t))
                    (np_clip [0, 1/2, 2] (1/4) (1 - 1/4)) (np_clip [0, 1/2, 2] (1/4) (1 - 1/4))))"
    by simp
  then have 3: "kl_divergence [0, 1/2, 2] [0, 1/2, 2] (1/4) = Inr 0"
    unfolding c by simp
  from c 1 2 3 show ?thesis by simp
qed

text \<open>
  The epsilon of the clipping is not the box epsilon 1e-6: the objective of the
  projector with the default box evaluates the divergence with 1e-10, a zero
  component of theta is clipped to 1e-10, below the lower end 1e-6 of the box,
  and the value differs from the one a clip at 1e-6 gives.
\<close>

theorem objective_clips_at_kl_default:
  "objective bounds_default [0] [1/2] = kl_divergence [1/2] [0] (1 / 10 ^ 10)
   \<and> np_clip [0] (1 / 10 ^ 10) (1 - 1 / 10 ^ 10) = [1 / 10 ^ 10]
   \<and> (1 / 10 ^ 10 :: real) < fst bounds_default
   \<and> x0 bounds_default [0] = [1 / 10 ^ 6]
   \<and> objective bounds_default [0] [1/2] \<noteq> kl_divergence [1/2] [0] (fst bounds_default)"
proof -
  have 1: "objective bounds_default [0] [1/2] = kl_divergence [1/2] [0] (1 / 10 ^ 10)"
    by (simp add: objective_def kl_eps_default_def)
  have 2: "np_clip [0] (1 / 10 ^ 10) (1 - 1 / 10 ^ 10) = [1 / 10 ^ 10]"
    by (simp add: np_clip_def clip_def)
  have 3: "(1 / 10 ^ 10 :: real) < fst bounds_default"
    by (simp add: bounds_default_def)
  have 4: "x0 bounds_default [0] = [1 / 10 ^ 6]"
    by (simp add: x0_def bounds_default_def np_clip_def clip_def)
  have a: "kl_divergence [1/2] [0] (1 / 10 ^ 10)
      = Inr (1/2 * (ln (1/2) - ln (1 / 10 ^ 10)))"
    using kl_same_length [of "1 / 10 ^ 10" "[1/2]" "[0]"]
    by (simp add: np_clip_def clip_def)
  have b: "kl_divergence [1/2] [0] (fst bounds_default)
      = Inr (1/2 * (ln (1/2) - ln (1 / 10 ^ 6)))"
    using kl_same_length [of "1 / 10 ^ 6" "[1/2]" "[0]"]
    by (simp add: np_clip_def clip_def bounds_default_def)
  have "ln (1 / 10 ^ 10 :: real) < ln (1 / 10 ^ 6)"
    by (subst ln_less_cancel_iff) simp_all
  then have 5: "objective bounds_default [0] [1/2] \<noteq> kl_divergence [1/2] [0] (fst bounds_default)"
    unfolding 1 a b by simp
  from 1 2 3 4 5 show ?thesis by blast
qed

section \<open>Properties of the order-book walk\<close>
























end
